theory Spec2Isabelle
  imports Main
begin

section \<open>Data model of the Hilink client\<close>

text \<open>
  Errors returned by the client. The five named constants are the ones \<open>hilink.go\<close>
  returns itself; \<open>ErrExternal\<close> is an error produced by a collaborator (the HTTP
  transport, the body reader, the markup codec, URL parsing, an option) and passed on
  unchanged. \<open>Panic\<close> is a run-time panic (a nil dereference), which is not a returned
  error value.
\<close>

datatype error =
    ErrBadStatusCode
  | ErrInvalidResponse
  | ErrInvalidValue
  | ErrInvalidXML
  | ErrMessageTooLong
  | ErrExternal string
  | Panic string

text \<open>
  The dynamically typed result of decoding (\<open>interface{}\<close>). The type assertions of the
  source distinguish the dynamic types \<open>string\<close>, \<open>map[string]interface{}\<close> and
  \<open>mxj.Map\<close> (a named map type: an assertion to one map type fails on the other).
\<close>

datatype xval =
    VString string
  | VMap "string \<Rightarrow> xval option"
  | VMxjMap "string \<Rightarrow> xval option"
  | VList "xval list"
  | VNil

text \<open>
  Request payloads (the non-nil values of parameter \<open>v\<close>): an \<open>XMLData\<close> map literal, or
  the value built by \<open>SimpleRequestXML\<close>.
\<close>

datatype field = FString string | FInt int | FData "string \<Rightarrow> field option"

datatype payload = XMLData "string \<Rightarrow> field option" | RawXML string

type_synonym header = "string \<Rightarrow> string list option"

record request =
  Method :: string
  URL :: string
  Body :: "string option"
  Header :: header

record response =
  StatusCode :: int
  RHeader :: header
  RBody :: "error + string"

record cookie =
  Name :: string
  Value :: string

text \<open>A cookie jar: the cookies stored, each with the URL it was stored under.\<close>

type_synonym jar = "(string \<times> cookie) list"

record Client =
  rawurl :: string
  url :: "string option"
  authID :: string
  authPW :: string
  nostart :: bool
  Jar :: "jar option"
  token :: string

text \<open>
  The collaborators of \<open>hilink.go\<close> that are not part of it are parameters of the model:
  the markup codec (\<open>encodeXML\<close>, \<open>decodeXML\<close>), the ordered field encoder
  (\<open>SimpleRequestXML\<close>, \<open>xmlPairs\<close>), the \<open>URL\<close> option, URL parsing inside
  \<open>http.NewRequest\<close>, the digest \<open>sha256.Sum256\<close> of the standard library, and the HTTP
  round trip \<open>c.client.Do\<close>. The round trip is a function
  of the client's cookie jar, of the requests sent before and of the request, so that a device
  may answer every exchange differently.
\<close>

record env =
  encodeXML :: "payload \<Rightarrow> error + string"
  decodeXML :: "string \<Rightarrow> bool \<Rightarrow> error + xval"
  SimpleRequestXML :: "string list \<Rightarrow> payload"
  xmlPairs :: "string \<Rightarrow> string list \<Rightarrow> string"
  URL_option :: "string \<Rightarrow> Client \<Rightarrow> error + Client"
  url_Parse :: "string \<Rightarrow> error option"
  sha256_Sum256 :: "string \<Rightarrow> string"
  client_Do :: "jar option \<Rightarrow> request list \<Rightarrow> request \<Rightarrow> error + response"

definition DefaultURL :: string where
  "DefaultURL = ''http://192.168.8.1/''"

definition TokenHeader :: string where
  "TokenHeader = ''__RequestVerificationToken''"

definition StatusOK :: int where
  "StatusOK = 200"

text \<open>\<open>http.Header\<close>: \<open>Set\<close> replaces the values of a key, \<open>Get\<close> returns the first value
  or the empty string. (Go canonicalises the key in both, in the same way.)\<close>

definition Header_Set :: "header \<Rightarrow> string \<Rightarrow> string \<Rightarrow> header" where
  "Header_Set h k v = h(k \<mapsto> [v])"

definition Header_Get :: "header \<Rightarrow> string \<Rightarrow> string" where
  "Header_Get h k = (case h k of None \<Rightarrow> [] | Some [] \<Rightarrow> [] | Some (v # _) \<Rightarrow> v)"

definition http_NewRequest :: "env \<Rightarrow> string \<Rightarrow> string \<Rightarrow> string option \<Rightarrow> error + request" where
  "http_NewRequest E method urlstr body =
     (case url_Parse E urlstr of
        Some err \<Rightarrow> Inl err
      | None \<Rightarrow> Inr \<lparr>Method = method, URL = urlstr, Body = body, Header = Map.empty\<rparr>)"

section \<open>The request dispatcher\<close>

definition createRequest :: "env \<Rightarrow> Client \<Rightarrow> string \<Rightarrow> payload option \<Rightarrow> error + request" where
  "createRequest E c urlstr v =
     (case v of
        None \<Rightarrow> http_NewRequest E ''GET'' urlstr None
      | Some p \<Rightarrow>
          (case encodeXML E p of
             Inl err \<Rightarrow> Inl err
           | Inr body \<Rightarrow>
               (case http_NewRequest E ''POST'' urlstr (Some body) of
                  Inl err \<Rightarrow> Inl err
                | Inr req \<Rightarrow>
                    Inr (req\<lparr>Header :=
                      Header_Set
                        (Header_Set (Header req) ''Content-Type''
                           ''application/x-www-form-urlencoded; charset=UTF-8'')
                        TokenHeader (token c)\<rparr>))))"

text \<open>
  One exchange. The state is the client and the list \<open>w\<close> of the requests handed to the
  transport so far (oldest first); the list is what the transport observes, it is not a field
  of the source. The mutex of the source is held during the whole body: the model is the
  sequential behaviour of one call.
\<close>

definition doReq ::
  "env \<Rightarrow> Client \<Rightarrow> request list \<Rightarrow> string \<Rightarrow> payload option \<Rightarrow> bool
     \<Rightarrow> Client \<times> request list \<times> (error + xval)" where
  "doReq E c w path v takeFirstEl =
     (case createRequest E c (rawurl c @ path) v of
        Inl err \<Rightarrow> (c, w, Inl err)
      | Inr q \<Rightarrow>
          (case client_Do E (Jar c) w q of
             Inl err \<Rightarrow> (c, w @ [q], Inl err)
           | Inr r \<Rightarrow>
               if StatusCode r \<noteq> StatusOK then (c, w @ [q], Inl ErrBadStatusCode)
               else
                 let tok = Header_Get (RHeader r) TokenHeader;
                     c' = (if tok \<noteq> [] then c\<lparr>token := tok\<rparr> else c)
                 in (case RBody r of
                       Inl err \<Rightarrow> (c', w @ [q], Inl err)
                     | Inr body \<Rightarrow>
                         (case decodeXML E body takeFirstEl of
                            Inl err \<Rightarrow> (c', w @ [q], Inl err)
                          | Inr m \<Rightarrow> (c', w @ [q], Inr m)))))"

definition doReqString ::
  "env \<Rightarrow> Client \<Rightarrow> request list \<Rightarrow> string \<Rightarrow> payload option \<Rightarrow> string
     \<Rightarrow> Client \<times> request list \<times> (error + string)" where
  "doReqString E c w path v elName =
     (case doReq E c w path v True of
        (c', w', Inl err) \<Rightarrow> (c', w', Inl err)
      | (c', w', Inr res) \<Rightarrow>
          (case res of
             VMap d \<Rightarrow>
               (case d elName of
                  None \<Rightarrow> (c', w', Inl ErrInvalidResponse)
                | Some l \<Rightarrow>
                    (case l of
                       VString s \<Rightarrow> (c', w', Inr s)
                     | _ \<Rightarrow> (c', w', Inl ErrInvalidValue)))
           | _ \<Rightarrow> (c', w', Inl ErrInvalidXML)))"

definition doReqCheckOK ::
  "env \<Rightarrow> Client \<Rightarrow> request list \<Rightarrow> string \<Rightarrow> payload option
     \<Rightarrow> Client \<times> request list \<times> (error + bool)" where
  "doReqCheckOK E c w path v =
     (case doReq E c w path v False of
        (c', w', Inl err) \<Rightarrow> (c', w', Inl err)
      | (c', w', Inr res) \<Rightarrow>
          (case res of
             VMxjMap m \<Rightarrow>
               (case m ''response'' of
                  None \<Rightarrow> (c', w', Inl ErrInvalidResponse)
                | Some r \<Rightarrow>
                    (case r of
                       VString s \<Rightarrow> (c', w', Inr (s = ''OK''))
                     | _ \<Rightarrow> (c', w', Inl ErrInvalidValue)))
           | _ \<Rightarrow> (c', w', Inl ErrInvalidResponse)))"

definition Do ::
  "env \<Rightarrow> Client \<Rightarrow> request list \<Rightarrow> string \<Rightarrow> payload option
     \<Rightarrow> Client \<times> request list \<times> (error + (string \<Rightarrow> xval option))" where
  "Do E c w path v =
     (case doReq E c w path v True of
        (c', w', Inl err) \<Rightarrow> (c', w', Inl err)
      | (c', w', Inr res) \<Rightarrow>
          (case res of
             VMap d \<Rightarrow> (c', w', Inr d)
           | _ \<Rightarrow> (c', w', Inl ErrInvalidXML)))"

section \<open>Session bootstrap\<close>

text \<open>\<open>strings.TrimPrefix\<close>.\<close>

definition TrimPrefix :: "string \<Rightarrow> string \<Rightarrow> string" where
  "TrimPrefix s p = (if take (length p) s = p then drop (length p) s else s)"

definition NewSessionAndTokenID ::
  "env \<Rightarrow> Client \<Rightarrow> request list \<Rightarrow> Client \<times> request list \<times> (error + string \<times> string)" where
  "NewSessionAndTokenID E c w =
     (case doReq E c w ''api/webserver/SesTokInfo'' None True of
        (c', w', Inl err) \<Rightarrow> (c', w', Inl err)
      | (c', w', Inr res) \<Rightarrow>
          (case res of
             VMap vals \<Rightarrow>
               (case vals ''SesInfo'' of
                  None \<Rightarrow> (c', w', Inl ErrInvalidResponse)
                | Some sesInfo \<Rightarrow>
                    (case vals ''TokInfo'' of
                       None \<Rightarrow> (c', w', Inl ErrInvalidResponse)
                     | Some tokInfo \<Rightarrow>
                         (case sesInfo of
                            VString s \<Rightarrow>
                              (case tokInfo of
                                 VString t \<Rightarrow> (c', w', Inr (TrimPrefix s ''SessionID='', t))
                               | _ \<Rightarrow> (c', w', Inl ErrInvalidResponse))
                          | _ \<Rightarrow> (c', w', Inl ErrInvalidResponse))))
           | _ \<Rightarrow> (c', w', Inl ErrInvalidResponse)))"

text \<open>\<open>cookiejar.New(nil)\<close>: a new, empty jar (the Go function never returns an error for
  nil options).\<close>

definition cookiejar_New :: "error + jar" where
  "cookiejar_New = Inr []"

text \<open>\<open>Jar.SetCookies(u, cookies)\<close>; \<open>u\<close> is a pointer, dereferenced by the jar.\<close>

definition SetCookies :: "jar \<Rightarrow> string option \<Rightarrow> cookie list \<Rightarrow> error + jar" where
  "SetCookies j u cookies =
     (case u of
        None \<Rightarrow> Inl (Panic ''nil pointer dereference'')
      | Some a \<Rightarrow> Inr (j @ map (\<lambda>k. (a, k)) cookies))"

definition SetSessionAndTokenID :: "Client \<Rightarrow> string \<Rightarrow> string \<Rightarrow> error + Client" where
  "SetSessionAndTokenID c sessionID tokenID =
     (case cookiejar_New of
        Inl err \<Rightarrow> Inl err
      | Inr j \<Rightarrow>
          (case SetCookies j (url c) [\<lparr>Name = ''SessionID'', Value = sessionID\<rparr>] of
             Inl err \<Rightarrow> Inl err
           | Inr j' \<Rightarrow> Inr (c\<lparr>Jar := Some j', token := tokenID\<rparr>)))"

section \<open>Authentication handshake\<close>

text \<open>\<open>hex.EncodeToString\<close>: two lower-case digits for every byte, high nibble first.\<close>

definition hextable :: string where
  "hextable = ''0123456789abcdef''"

fun hex_EncodeToString :: "string \<Rightarrow> string" where
  "hex_EncodeToString [] = []"
| "hex_EncodeToString (v # src) =
     hextable ! ((of_char v :: nat) div 16) # hextable ! ((of_char v :: nat) mod 16)
       # hex_EncodeToString src"

text \<open>
  \<open>base64.RawStdEncoding.EncodeToString\<close>: the standard alphabet, three bytes to four
  digits, and no padding after a last group of one or two bytes.
\<close>

definition encodeStd :: string where
  "encodeStd = ''ABCDEFGHIJKLMNOPQRSTUVWXYZabcdefghijklmnopqrstuvwxyz0123456789+/''"

fun base64_RawStdEncoding :: "string \<Rightarrow> string" where
  "base64_RawStdEncoding (a # b # c # src) =
     (let val = of_char a * 65536 + of_char b * 256 + (of_char c :: nat)
      in encodeStd ! (val div 262144 mod 64) # encodeStd ! (val div 4096 mod 64)
         # encodeStd ! (val div 64 mod 64) # encodeStd ! (val mod 64)
         # base64_RawStdEncoding src)"
| "base64_RawStdEncoding [a, b] =
     (let val = of_char a * 65536 + (of_char b :: nat) * 256
      in [encodeStd ! (val div 262144 mod 64), encodeStd ! (val div 4096 mod 64),
          encodeStd ! (val div 64 mod 64)])"
| "base64_RawStdEncoding [a] =
     (let val = (of_char a :: nat) * 65536
      in [encodeStd ! (val div 262144 mod 64), encodeStd ! (val div 4096 mod 64)])"
| "base64_RawStdEncoding [] = []"

text \<open>The credential \<open>tokenizedPW\<close> that \<open>login\<close> computes from the secret and the token.\<close>

definition tokenizedPW :: "env \<Rightarrow> string \<Rightarrow> string \<Rightarrow> string" where
  "tokenizedPW E pw tok =
     (let h = sha256_Sum256 E (pw @ tok)
      in base64_RawStdEncoding (hex_EncodeToString h))"

definition login :: "env \<Rightarrow> Client \<Rightarrow> request list \<Rightarrow> Client \<times> request list \<times> (error + bool)" where
  "login E c w =
     (if authID c = [] then (c, w, Inr False)
      else doReqCheckOK E c w ''api/user/login''
             (Some (XMLData [''Username'' \<mapsto> FString (authID c),
                             ''Password'' \<mapsto> FString (tokenizedPW E (authPW c) (token c)),
                             ''password_type'' \<mapsto> FInt 4])))"

section \<open>Construction of a client\<close>

text \<open>An option is a function on the client that may fail; the options are applied in
  order, and the first error ends the construction.\<close>

type_synonym Option = "Client \<Rightarrow> error + Client"

fun apply_opts :: "Option list \<Rightarrow> Client \<Rightarrow> error + Client" where
  "apply_opts [] c = Inr c"
| "apply_opts (opt # opts) c =
     (case opt c of Inl err \<Rightarrow> Inl err | Inr c' \<Rightarrow> apply_opts opts c')"

definition new_Client :: Client where
  "new_Client = \<lparr>rawurl = [], url = None, authID = [], authPW = [], nostart = False,
                  Jar = None, token = []\<rparr>"

definition NewClient :: "env \<Rightarrow> Option list \<Rightarrow> request list \<Rightarrow> request list \<times> (error + Client)" where
  "NewClient E opts w =
     (case apply_opts opts new_Client of
        Inl err \<Rightarrow> (w, Inl err)
      | Inr c1 \<Rightarrow>
          (case (if rawurl c1 = [] \<or> url c1 = None then URL_option E DefaultURL c1 else Inr c1) of
             Inl err \<Rightarrow> (w, Inl err)
           | Inr c2 \<Rightarrow>
               if \<not> nostart c2 then
                 (case NewSessionAndTokenID E c2 w of
                    (c3, w3, Inl err) \<Rightarrow> (w3, Inl err)
                  | (c3, w3, Inr (sessID, tokID)) \<Rightarrow>
                      (case SetSessionAndTokenID c3 sessID tokID of
                         Inl err \<Rightarrow> (w3, Inl err)
                       | Inr c4 \<Rightarrow>
                           (case login E c4 w3 of
                              (c5, w5, Inl err) \<Rightarrow> (w5, Inl err)
                            | (c5, w5, Inr ok) \<Rightarrow> (w5, Inr c5))))
               else (w, Inr c2)))"

section \<open>Sending an SMS\<close>

text \<open>\<open>fmt.Sprintf("%d", n)\<close> for a length \<open>n\<close>.\<close>

function Sprintf_d :: "nat \<Rightarrow> string" where
  "Sprintf_d n =
     (if n < 10 then [''0123456789'' ! n]
      else Sprintf_d (n div 10) @ [''0123456789'' ! (n mod 10)])"
  by pat_completeness auto
termination
  by (relation "measure id") auto

declare Sprintf_d.simps [simp del]

text \<open>
  \<open>len(msg)\<close> is the number of bytes of the string. The argument \<open>now\<close> is the formatted
  reading of the clock, \<open>time.Now().Format("2006-01-02 15:04:05")\<close>.
\<close>

definition SmsSend ::
  "env \<Rightarrow> Client \<Rightarrow> request list \<Rightarrow> string \<Rightarrow> string \<Rightarrow> string list
     \<Rightarrow> Client \<times> request list \<times> (error + bool)" where
  "SmsSend E c w now msg to =
     (if length msg \<ge> 160 then (c, w, Inl ErrMessageTooLong)
      else
        let phones = foldl (\<lambda>phones t. phones @ [''Phone'', t]) [] to
        in doReqCheckOK E c w ''api/sms/send-sms''
             (Some (SimpleRequestXML E
                [''Index'', ''-1'',
                 ''Phones'', CHR 0x0A # xmlPairs E ''    '' phones,
                 ''Sca'', [],
                 ''Content'', msg,
                 ''Length'', Sprintf_d (length msg),
                 ''Reserved'', ''1'',
                 ''Date'', now])))"

section \<open>Notions used to state the properties\<close>

text \<open>The response that the transport delivers in the exchange \<open>doReq E c w path v _\<close>, if the
  request could be built and the round trip returned one.\<close>

definition exchange_response ::
  "env \<Rightarrow> Client \<Rightarrow> request list \<Rightarrow> string \<Rightarrow> payload option \<Rightarrow> response option" where
  "exchange_response E c w path v =
     (case createRequest E c (rawurl c @ path) v of
        Inl err \<Rightarrow> None
      | Inr q \<Rightarrow> (case client_Do E (Jar c) w q of Inl err \<Rightarrow> None | Inr r \<Rightarrow> Some r))"

text \<open>
  The error taxonomy of the specification, for the kinds that name errors raised by
  \<open>hilink.go\<close> itself, and the kind that each error constant of the source carries by its
  name. Errors of collaborators and panics have no kind here.
\<close>

datatype kind =
  BadStatusCode | InvalidResponse | InvalidValue | InvalidShape | FieldMissing | MessageTooLong

fun spec_kind :: "error \<Rightarrow> kind option" where
  "spec_kind ErrBadStatusCode = Some BadStatusCode"
| "spec_kind ErrInvalidResponse = Some InvalidResponse"
| "spec_kind ErrInvalidValue = Some InvalidValue"
| "spec_kind ErrInvalidXML = Some InvalidShape"
| "spec_kind ErrMessageTooLong = Some MessageTooLong"
| "spec_kind (ErrExternal _) = None"
| "spec_kind (Panic _) = None"

section \<open>A concrete device for examples\<close>

text \<open>
  A device given by a table from URLs to responses and a decoder; the codec of the examples
  encodes every payload as the same body, and the digest of the examples is a stand-in of
  the right length (the first 32 bytes of the input, padded with zero bytes).
\<close>

definition demo_env :: "(string \<times> response) list \<Rightarrow> (string \<Rightarrow> bool \<Rightarrow> error + xval) \<Rightarrow> env" where
  "demo_env tbl dec =
     \<lparr>encodeXML = (\<lambda>p. Inr ''<request/>''),
      decodeXML = dec,
      SimpleRequestXML = (\<lambda>vals. RawXML (concat vals)),
      xmlPairs = (\<lambda>indent vals. concat vals),
      URL_option = (\<lambda>u c. Inr (c\<lparr>rawurl := u, url := Some u\<rparr>)),
      url_Parse = (\<lambda>u. None),
      sha256_Sum256 = (\<lambda>m. take 32 (m @ replicate 32 (CHR 0x00))),
      client_Do = (\<lambda>j w q. case map_of tbl (URL q) of
                               None \<Rightarrow> Inl (ErrExternal ''unreachable'')
                             | Some r \<Rightarrow> Inr r)\<rparr>"

definition demo_client :: Client where
  "demo_client = \<lparr>rawurl = ''http://192.168.8.1/'', url = Some ''http://192.168.8.1/'',
                   authID = ''admin'', authPW = ''pw'', nostart = False,
                   Jar = None, token = ''tok''\<rparr>"

definition ok_response :: "string \<Rightarrow> string \<Rightarrow> response" where
  "ok_response tok body =
     \<lparr>StatusCode = 200,
      RHeader = (if tok = [] then Map.empty else [TokenHeader \<mapsto> [tok]]),
      RBody = Inr body\<rparr>"

definition demo_decode :: "string \<Rightarrow> bool \<Rightarrow> error + xval" where
  "demo_decode body takeFirstEl =
     (if body = ''<response>OK</response>'' then
        (if takeFirstEl then Inr (VString ''OK'') else Inr (VMxjMap [''response'' \<mapsto> VString ''OK'']))
      else if body = ''<response>FAILED</response>'' then
        (if takeFirstEl then Inr (VString ''FAILED'')
         else Inr (VMxjMap [''response'' \<mapsto> VString ''FAILED'']))
      else if body = ''<response><a>1</a></response>'' then
        (if takeFirstEl then Inr (VMap [''a'' \<mapsto> VString ''1''])
         else Inr (VMxjMap [''response'' \<mapsto> VMap [''a'' \<mapsto> VString ''1'']]))
      else if body = ''<response><a><b>1</b></a></response>'' then
        (if takeFirstEl then Inr (VMap [''a'' \<mapsto> VMap [''b'' \<mapsto> VString ''1'']])
         else Inr (VMxjMap [''response'' \<mapsto> VMap [''a'' \<mapsto> VMap [''b'' \<mapsto> VString ''1'']]]))
      else if body = ''<response><SesInfo>SessionID=abc</SesInfo><TokInfo>t0</TokInfo></response>'' then
        (if takeFirstEl then Inr (VMap [''SesInfo'' \<mapsto> VString ''SessionID=abc'',
                                        ''TokInfo'' \<mapsto> VString ''t0''])
         else Inr (VMxjMap [''response'' \<mapsto> VMap [''SesInfo'' \<mapsto> VString ''SessionID=abc'',
                                                        ''TokInfo'' \<mapsto> VString ''t0'']]))
      else if body = ''<response><SesInfo>SessionID=abc</SesInfo></response>'' then
        (if takeFirstEl then Inr (VMap [''SesInfo'' \<mapsto> VString ''SessionID=abc''])
         else Inr (VMxjMap [''response'' \<mapsto> VMap [''SesInfo'' \<mapsto> VString ''SessionID=abc'']]))
      else if body = ''<config><a>1</a></config>'' then
        (if takeFirstEl then Inr (VMap [''a'' \<mapsto> VString ''1''])
         else Inr (VMxjMap [''config'' \<mapsto> VMap [''a'' \<mapsto> VString ''1'']]))
      else Inl (ErrExternal ''xml''))"

text \<open>Devices of the examples: each answers the path \<open>api/x\<close> with one fixed response.\<close>

definition device_x :: "string \<Rightarrow> string \<Rightarrow> env" where
  "device_x tok body = demo_env [(''http://192.168.8.1/api/x'', ok_response tok body)] demo_decode"

text \<open>A device that answers the session-info request and the login request.\<close>

definition device_boot :: "string \<Rightarrow> string \<Rightarrow> env" where
  "device_boot ses_body login_body =
     demo_env [(''http://192.168.8.1/api/webserver/SesTokInfo'', ok_response [] ses_body),
               (''http://192.168.8.1/api/user/login'', ok_response ''t1'' login_body)] demo_decode"

definition Auth_admin :: Option where
  "Auth_admin c = Inr (c\<lparr>authID := ''admin'', authPW := ''pw''\<rparr>)"

text \<open>The states of a construction with the option \<open>Auth_admin\<close> against \<open>device_boot\<close>:
  after the options and the default URL, and after the session has been installed.\<close>

definition boot_client :: Client where
  "boot_client = new_Client\<lparr>rawurl := DefaultURL, url := Some DefaultURL,
                   authID := ''admin'', authPW := ''pw''\<rparr>"

definition boot_wire :: "request list" where
  "boot_wire = [\<lparr>Method = ''GET'', URL = ''http://192.168.8.1/api/webserver/SesTokInfo'',
                  Body = None, Header = Map.empty\<rparr>]"

definition session_client :: Client where
  "session_client = boot_client\<lparr>Jar := Some [(DefaultURL, \<lparr>Name = ''SessionID'', Value = ''abc''\<rparr>)],
                      token := ''t0''\<rparr>"

text \<open>A device that acknowledges the sending of an SMS.\<close>

definition device_sms :: env where
  "device_sms = demo_env [(''http://192.168.8.1/api/sms/send-sms'',
                           ok_response ''t1'' ''<response>OK</response>'')] demo_decode"

text \<open>
  A device whose answer to \<open>api/a\<close> carries the token \<open>t1\<close>, whose answer to \<open>api/b\<close>
  carries no token header, and whose answer to \<open>api/c\<close> carries the token \<open>t3\<close>; and three
  exchanges in a row on the client with the installed session (token \<open>t0\<close>): a GET of
  \<open>api/a\<close>, a GET of \<open>api/b\<close>, and a POST to \<open>api/c\<close>.
\<close>

definition device_abc :: env where
  "device_abc =
     demo_env [(''http://192.168.8.1/api/a'', ok_response ''t1'' ''<response>OK</response>''),
               (''http://192.168.8.1/api/b'', ok_response [] ''<response>OK</response>''),
               (''http://192.168.8.1/api/c'', ok_response ''t3'' ''<response>OK</response>'')]
       demo_decode"

definition exchange_1 :: "Client \<times> request list \<times> (error + xval)" where
  "exchange_1 = doReq device_abc session_client [] ''api/a'' None False"

definition exchange_2 :: "Client \<times> request list \<times> (error + xval)" where
  "exchange_2 = doReq device_abc (fst exchange_1) (fst (snd exchange_1)) ''api/b'' None False"

definition exchange_3 :: "Client \<times> request list \<times> (error + xval)" where
  "exchange_3 = doReq device_abc (fst exchange_2) (fst (snd exchange_2)) ''api/c''
                  (Some (RawXML ''<request/>'')) False"

text \<open>Whether a result is a success.\<close>

fun succeeded :: "error + 'a \<Rightarrow> bool" where
  "succeeded (Inr _) = True"
| "succeeded (Inl _) = False"

section \<open>Request construction\<close>

lemma http_NewRequest_Inr:
  "http_NewRequest E method urlstr body = Inr q \<Longrightarrow>
     Method q = method \<and> URL q = urlstr \<and> Body q = body \<and> Header q = Map.empty"
  by (auto simp: http_NewRequest_def split: option.splits)

lemma createRequest_GET:
  "createRequest E c urlstr None = Inr q \<Longrightarrow>
     Method q = ''GET'' \<and> URL q = urlstr \<and> Body q = None \<and> Header q = Map.empty"
  by (simp add: createRequest_def http_NewRequest_Inr)

lemma createRequest_POST:
  "createRequest E c urlstr (Some p) = Inr q \<Longrightarrow>
     Method q = ''POST'' \<and> URL q = urlstr \<and> Header q TokenHeader = Some [token c]"
  by (auto simp: createRequest_def Header_Set_def split: sum.splits dest: http_NewRequest_Inr)

text \<open>
  C3. A call with payload nil builds a GET request with no body and without the token
  header. A call with a payload builds a POST request whose body is the encoded payload,
  with the content type declared and the client's current token under the token header.
\<close>

theorem createRequest_shape:
  "(createRequest E c urlstr None = Inr q \<longrightarrow>
      Method q = ''GET'' \<and> URL q = urlstr \<and> Body q = None \<and> Header q TokenHeader = None) \<and>
   (createRequest E c urlstr (Some p) = Inr q \<longrightarrow>
      Method q = ''POST'' \<and> URL q = urlstr \<and>
      (\<exists>body. encodeXML E p = Inr body \<and> Body q = Some body) \<and>
      Header q ''Content-Type'' = Some [''application/x-www-form-urlencoded; charset=UTF-8''] \<and>
      Header q TokenHeader = Some [token c])"
proof (rule conjI; rule impI)
  assume "createRequest E c urlstr None = Inr q"
  then have "http_NewRequest E ''GET'' urlstr None = Inr q"
    by (simp add: createRequest_def)
  from http_NewRequest_Inr [OF this]
  show "Method q = ''GET'' \<and> URL q = urlstr \<and> Body q = None \<and> Header q TokenHeader = None"
    by simp
next
  assume a: "createRequest E c urlstr (Some p) = Inr q"
  then obtain body req where
    enc: "encodeXML E p = Inr body" and
    new: "http_NewRequest E ''POST'' urlstr (Some body) = Inr req" and
    q: "q = req\<lparr>Header :=
          Header_Set
            (Header_Set (Header req) ''Content-Type''
               ''application/x-www-form-urlencoded; charset=UTF-8'')
            TokenHeader (token c)\<rparr>"
    by (auto simp: createRequest_def split: sum.splits)
  from http_NewRequest_Inr [OF new] q enc
  show "Method q = ''POST'' \<and> URL q = urlstr \<and>
      (\<exists>body. encodeXML E p = Inr body \<and> Body q = Some body) \<and>
      Header q ''Content-Type'' = Some [''application/x-www-form-urlencoded; charset=UTF-8''] \<and>
      Header q TokenHeader = Some [token c]"
    by (simp add: Header_Set_def TokenHeader_def)
qed

theorem createRequest_shape_witness:
  "(\<exists>q. createRequest (demo_env [] demo_decode) demo_client ''http://192.168.8.1/api/x'' None = Inr q \<and>
        Method q = ''GET'' \<and> Body q = None \<and> Header q TokenHeader = None) \<and>
   (\<exists>q. createRequest (demo_env [] demo_decode) demo_client ''http://192.168.8.1/api/x''
          (Some (RawXML ''<a>1</a>'')) = Inr q \<and>
        Method q = ''POST'' \<and> Body q = Some ''<request/>'' \<and> Header q TokenHeader = Some [''tok''])"
proof (rule conjI)
  obtain q where q: "createRequest (demo_env [] demo_decode) demo_client ''http://192.168.8.1/api/x'' None = Inr q"
    by (simp add: createRequest_def http_NewRequest_def demo_env_def)
  with createRequest_shape [of "demo_env [] demo_decode" demo_client "''http://192.168.8.1/api/x''" q]
  show "\<exists>q. createRequest (demo_env [] demo_decode) demo_client ''http://192.168.8.1/api/x'' None = Inr q \<and>
        Method q = ''GET'' \<and> Body q = None \<and> Header q TokenHeader = None"
    by simp
next
  obtain q where q: "createRequest (demo_env [] demo_decode) demo_client ''http://192.168.8.1/api/x''
          (Some (RawXML ''<a>1</a>'')) = Inr q"
    by (simp add: createRequest_def http_NewRequest_def demo_env_def)
  with createRequest_shape [of "demo_env [] demo_decode" demo_client "''http://192.168.8.1/api/x''" q
      "RawXML ''<a>1</a>''"]
  show "\<exists>q. createRequest (demo_env [] demo_decode) demo_client ''http://192.168.8.1/api/x''
          (Some (RawXML ''<a>1</a>'')) = Inr q \<and>
        Method q = ''POST'' \<and> Body q = Some ''<request/>'' \<and> Header q TokenHeader = Some [''tok'']"
    by (simp add: demo_env_def demo_client_def)
qed

section \<open>Token rotation\<close>

text \<open>
  C2. After an exchange the stored token is the response's token header exactly when the
  transport delivered a response with the success status and a non-empty token header;
  otherwise the client is unchanged. The token is kept when reading or decoding the body
  fails afterwards (the error is returned all the same), and a response without the token
  header leaves the client as it was and is decoded as usual.
\<close>

theorem doReq_token_rotation:
  "fst (doReq E c w path v takeFirstEl) =
     (case exchange_response E c w path v of
        None \<Rightarrow> c
      | Some r \<Rightarrow>
          if StatusCode r = StatusOK \<and> Header_Get (RHeader r) TokenHeader \<noteq> []
          then c\<lparr>token := Header_Get (RHeader r) TokenHeader\<rparr> else c) \<and>
   (exchange_response E c w path v = Some r \<and> StatusCode r = StatusOK \<and>
    (RBody r = Inl err \<or> (\<exists>body. RBody r = Inr body \<and> decodeXML E body takeFirstEl = Inl err)) \<longrightarrow>
      snd (snd (doReq E c w path v takeFirstEl)) = Inl err \<and>
      token (fst (doReq E c w path v takeFirstEl)) =
        (if Header_Get (RHeader r) TokenHeader \<noteq> [] then Header_Get (RHeader r) TokenHeader
         else token c)) \<and>
   (exchange_response E c w path v = Some r \<and> StatusCode r = StatusOK \<and>
    RHeader r TokenHeader = None \<longrightarrow>
      fst (doReq E c w path v takeFirstEl) = c \<and>
      snd (snd (doReq E c w path v takeFirstEl)) =
        (case RBody r of Inl err \<Rightarrow> Inl err | Inr body \<Rightarrow> decodeXML E body takeFirstEl))"
proof (intro conjI impI)
  show "fst (doReq E c w path v takeFirstEl) =
     (case exchange_response E c w path v of
        None \<Rightarrow> c
      | Some r \<Rightarrow>
          if StatusCode r = StatusOK \<and> Header_Get (RHeader r) TokenHeader \<noteq> []
          then c\<lparr>token := Header_Get (RHeader r) TokenHeader\<rparr> else c)"
    by (simp add: doReq_def exchange_response_def Let_def split: sum.splits)
next
  assume a: "exchange_response E c w path v = Some r \<and> StatusCode r = StatusOK \<and>
    (RBody r = Inl err \<or> (\<exists>body. RBody r = Inr body \<and> decodeXML E body takeFirstEl = Inl err))"
  then show "snd (snd (doReq E c w path v takeFirstEl)) = Inl err"
    by (auto simp: doReq_def exchange_response_def Let_def split: sum.splits)
  from a show "token (fst (doReq E c w path v takeFirstEl)) =
        (if Header_Get (RHeader r) TokenHeader \<noteq> [] then Header_Get (RHeader r) TokenHeader
         else token c)"
    by (auto simp: doReq_def exchange_response_def Let_def split: sum.splits)
next
  assume a: "exchange_response E c w path v = Some r \<and> StatusCode r = StatusOK \<and>
    RHeader r TokenHeader = None"
  then show "fst (doReq E c w path v takeFirstEl) = c"
    by (auto simp: doReq_def exchange_response_def Let_def Header_Get_def split: sum.splits)
  from a show "snd (snd (doReq E c w path v takeFirstEl)) =
        (case RBody r of Inl err \<Rightarrow> Inl err | Inr body \<Rightarrow> decodeXML E body takeFirstEl)"
    by (auto simp: doReq_def exchange_response_def Let_def Header_Get_def split: sum.splits)
qed

theorem doReq_token_rotation_witness:
  "exchange_response (demo_env [(''http://192.168.8.1/api/x'', ok_response ''t1'' ''<<'')] demo_decode)
       demo_client [] ''api/x'' None = Some (ok_response ''t1'' ''<<'') \<and>
   StatusCode (ok_response ''t1'' ''<<'') = StatusOK \<and>
   decodeXML (demo_env [(''http://192.168.8.1/api/x'', ok_response ''t1'' ''<<'')] demo_decode)
       ''<<'' True = Inl (ErrExternal ''xml'') \<and>
   snd (snd (doReq (demo_env [(''http://192.168.8.1/api/x'', ok_response ''t1'' ''<<'')] demo_decode)
       demo_client [] ''api/x'' None True)) = Inl (ErrExternal ''xml'') \<and>
   token (fst (doReq (demo_env [(''http://192.168.8.1/api/x'', ok_response ''t1'' ''<<'')] demo_decode)
       demo_client [] ''api/x'' None True)) = ''t1''"
proof -
  let ?E = "demo_env [(''http://192.168.8.1/api/x'', ok_response ''t1'' ''<<'')] demo_decode"
  have r: "exchange_response ?E demo_client [] ''api/x'' None = Some (ok_response ''t1'' ''<<'')"
    by (simp add: exchange_response_def createRequest_def http_NewRequest_def demo_env_def
        demo_client_def)
  have s: "StatusCode (ok_response ''t1'' ''<<'') = StatusOK"
    by (simp add: ok_response_def StatusOK_def)
  have b: "RBody (ok_response ''t1'' ''<<'') = Inr ''<<''"
    by (simp add: ok_response_def)
  have d: "decodeXML ?E ''<<'' True = Inl (ErrExternal ''xml'')"
    by (simp add: demo_env_def demo_decode_def)
  have h: "Header_Get (RHeader (ok_response ''t1'' ''<<'')) TokenHeader = ''t1''"
    by (simp add: ok_response_def Header_Get_def)
  from doReq_token_rotation [of ?E demo_client "[]" "''api/x''" None True
      "ok_response ''t1'' ''<<''" "ErrExternal ''xml''"] r s b d h
  show ?thesis by simp
qed

section \<open>The derived call shapes\<close>

lemma device_x_doReq:
  "snd (snd (doReq (device_x tok body) demo_client w ''api/x'' None f)) = demo_decode body f"
  by (simp add: device_x_def doReq_def createRequest_def http_NewRequest_def demo_env_def
      demo_client_def ok_response_def StatusOK_def Let_def split: sum.splits)

lemma doReqCheckOK_state:
  "fst (doReqCheckOK E c w path v) = fst (doReq E c w path v False) \<and>
   fst (snd (doReqCheckOK E c w path v)) = fst (snd (doReq E c w path v False))"
  by (simp add: doReqCheckOK_def split: prod.splits sum.splits xval.splits option.splits)

lemma doReqString_state:
  "fst (doReqString E c w path v elName) = fst (doReq E c w path v True) \<and>
   fst (snd (doReqString E c w path v elName)) = fst (snd (doReq E c w path v True))"
  by (simp add: doReqString_def split: prod.splits sum.splits xval.splits option.splits)

text \<open>
  C4, as the code has it. The boolean-acknowledgement call decodes in the raw form
  (\<open>takeFirstEl\<close> false). When the decoded value is an \<open>mxj.Map\<close> whose \<open>response\<close> field is
  scalar text, the call returns whether that text is exactly \<open>OK\<close>, without error; when the
  map has no \<open>response\<close> field, or the decoded value is no \<open>mxj.Map\<close>, it fails with
  \<open>ErrInvalidResponse\<close>; when the field is present and is not scalar text it fails with
  \<open>ErrInvalidValue\<close>. An error of the exchange is passed on.
\<close>

theorem doReqCheckOK_ack:
  "(snd (snd (doReq E c w path v False)) = Inl err \<longrightarrow>
      snd (snd (doReqCheckOK E c w path v)) = Inl err) \<and>
   (snd (snd (doReq E c w path v False)) = Inr (VMxjMap m) \<and> m ''response'' = Some (VString s) \<longrightarrow>
      snd (snd (doReqCheckOK E c w path v)) = Inr (s = ''OK'')) \<and>
   (snd (snd (doReq E c w path v False)) = Inr (VMxjMap m) \<and> m ''response'' = None \<longrightarrow>
      snd (snd (doReqCheckOK E c w path v)) = Inl ErrInvalidResponse) \<and>
   (snd (snd (doReq E c w path v False)) = Inr (VMxjMap m) \<and> m ''response'' = Some x \<and>
    (\<forall>t. x \<noteq> VString t) \<longrightarrow>
      snd (snd (doReqCheckOK E c w path v)) = Inl ErrInvalidValue) \<and>
   (snd (snd (doReq E c w path v False)) = Inr res \<and> (\<forall>d. res \<noteq> VMxjMap d) \<longrightarrow>
      snd (snd (doReqCheckOK E c w path v)) = Inl ErrInvalidResponse)"
  by (cases "doReq E c w path v False")
     (auto simp: doReqCheckOK_def split: sum.splits xval.splits option.splits)

theorem doReqCheckOK_ack_witness:
  "snd (snd (doReqCheckOK (device_x [] ''<response>OK</response>'') demo_client [] ''api/x'' None))
     = Inr True \<and>
   snd (snd (doReqCheckOK (device_x [] ''<response>FAILED</response>'') demo_client [] ''api/x'' None))
     = Inr False \<and>
   snd (snd (doReqCheckOK (device_x [] ''<config><a>1</a></config>'') demo_client [] ''api/x'' None))
     = Inl ErrInvalidResponse \<and>
   snd (snd (doReqCheckOK (device_x [] ''<response><a>1</a></response>'') demo_client [] ''api/x'' None))
     = Inl ErrInvalidValue \<and>
   snd (snd (doReqCheckOK (device_x [] ''<<'') demo_client [] ''api/x'' None))
     = Inl (ErrExternal ''xml'')"
proof (intro conjI)
  show "snd (snd (doReqCheckOK (device_x [] ''<response>OK</response>'') demo_client [] ''api/x'' None))
     = Inr True"
    using doReqCheckOK_ack [of "device_x [] ''<response>OK</response>''" demo_client "[]" "''api/x''"
        None _ "[''response'' \<mapsto> VString ''OK'']" "''OK''"]
    by (simp add: device_x_doReq demo_decode_def)
  show "snd (snd (doReqCheckOK (device_x [] ''<response>FAILED</response>'') demo_client [] ''api/x'' None))
     = Inr False"
    using doReqCheckOK_ack [of "device_x [] ''<response>FAILED</response>''" demo_client "[]"
        "''api/x''" None _ "[''response'' \<mapsto> VString ''FAILED'']" "''FAILED''"]
    by (simp add: device_x_doReq demo_decode_def)
  show "snd (snd (doReqCheckOK (device_x [] ''<config><a>1</a></config>'') demo_client [] ''api/x'' None))
     = Inl ErrInvalidResponse"
    using doReqCheckOK_ack [of "device_x [] ''<config><a>1</a></config>''" demo_client "[]"
        "''api/x''" None _ "[''config'' \<mapsto> VMap [''a'' \<mapsto> VString ''1'']]"]
    by (simp add: device_x_doReq demo_decode_def)
  show "snd (snd (doReqCheckOK (device_x [] ''<response><a>1</a></response>'') demo_client [] ''api/x'' None))
     = Inl ErrInvalidValue"
    using doReqCheckOK_ack [of "device_x [] ''<response><a>1</a></response>''" demo_client "[]"
        "''api/x''" None _ "[''response'' \<mapsto> VMap [''a'' \<mapsto> VString ''1'']]" _
        "VMap [''a'' \<mapsto> VString ''1'']"]
    by (simp add: device_x_doReq demo_decode_def)
  show "snd (snd (doReqCheckOK (device_x [] ''<<'') demo_client [] ''api/x'' None))
     = Inl (ErrExternal ''xml'')"
    using doReqCheckOK_ack [of "device_x [] ''<<''" demo_client "[]" "''api/x''" None
        "ErrExternal ''xml''"]
    by (simp add: device_x_doReq demo_decode_def)
qed

text \<open>
  The claim C4 has \<open>InvalidResponse\<close> for every other shape of the \<open>response\<close> field: for
  a device that answers with a nested \<open>response\<close> element the call fails with
  \<open>ErrInvalidValue\<close>.
\<close>

theorem doReqCheckOK_nested_counterexample:
  "snd (snd (doReqCheckOK (device_x [] ''<response><a>1</a></response>'') demo_client [] ''api/x'' None))
     \<noteq> Inl ErrInvalidResponse \<and>
   spec_kind ErrInvalidValue \<noteq> Some InvalidResponse"
  by (simp add: doReqCheckOK_def device_x_def doReq_def createRequest_def http_NewRequest_def
      demo_env_def demo_client_def ok_response_def StatusOK_def Let_def Header_Get_def
      demo_decode_def)

text \<open>
  C6, as the code has it. The scalar-field call decodes in the unwrapped form
  (\<open>takeFirstEl\<close> true) and returns the text of the named field of the decoded map. It
  fails with \<open>ErrInvalidResponse\<close> when the map has no such field, with \<open>ErrInvalidValue\<close>
  when the field is present and is not scalar text, and with \<open>ErrInvalidXML\<close> when the
  decoded value is not a map. An error of the exchange is passed on.
\<close>

theorem doReqString_result:
  "(snd (snd (doReq E c w path v True)) = Inl err \<longrightarrow>
      snd (snd (doReqString E c w path v elName)) = Inl err) \<and>
   (snd (snd (doReq E c w path v True)) = Inr (VMap d) \<and> d elName = Some (VString s) \<longrightarrow>
      snd (snd (doReqString E c w path v elName)) = Inr s) \<and>
   (snd (snd (doReq E c w path v True)) = Inr (VMap d) \<and> d elName = None \<longrightarrow>
      snd (snd (doReqString E c w path v elName)) = Inl ErrInvalidResponse) \<and>
   (snd (snd (doReq E c w path v True)) = Inr (VMap d) \<and> d elName = Some x \<and>
    (\<forall>t. x \<noteq> VString t) \<longrightarrow>
      snd (snd (doReqString E c w path v elName)) = Inl ErrInvalidValue) \<and>
   (snd (snd (doReq E c w path v True)) = Inr res \<and> (\<forall>m. res \<noteq> VMap m) \<longrightarrow>
      snd (snd (doReqString E c w path v elName)) = Inl ErrInvalidXML)"
  by (cases "doReq E c w path v True")
     (auto simp: doReqString_def split: sum.splits xval.splits option.splits)

theorem doReqString_result_witness:
  "snd (snd (doReqString (device_x [] ''<config><a>1</a></config>'') demo_client [] ''api/x'' None ''a''))
     = Inr ''1'' \<and>
   snd (snd (doReqString (device_x [] ''<config><a>1</a></config>'') demo_client [] ''api/x'' None ''b''))
     = Inl ErrInvalidResponse \<and>
   snd (snd (doReqString (device_x [] ''<response><a><b>1</b></a></response>'') demo_client []
     ''api/x'' None ''a'')) = Inl ErrInvalidValue \<and>
   snd (snd (doReqString (device_x [] ''<response>OK</response>'') demo_client [] ''api/x'' None ''a''))
     = Inl ErrInvalidXML \<and>
   snd (snd (doReqString (device_x [] ''<<'') demo_client [] ''api/x'' None ''a''))
     = Inl (ErrExternal ''xml'')"
proof (intro conjI)
  show "snd (snd (doReqString (device_x [] ''<config><a>1</a></config>'') demo_client [] ''api/x'' None
      ''a'')) = Inr ''1''"
    using doReqString_result [where E = "device_x [] ''<config><a>1</a></config>''"
        and c = demo_client and w = "[]" and path = "''api/x''" and v = None
        and d = "[''a'' \<mapsto> VString ''1'']" and elName = "''a''" and s = "''1''"]
    by (simp add: device_x_doReq demo_decode_def)
  show "snd (snd (doReqString (device_x [] ''<config><a>1</a></config>'') demo_client [] ''api/x'' None
      ''b'')) = Inl ErrInvalidResponse"
    using doReqString_result [where E = "device_x [] ''<config><a>1</a></config>''"
        and c = demo_client and w = "[]" and path = "''api/x''" and v = None
        and d = "[''a'' \<mapsto> VString ''1'']" and elName = "''b''"]
    by (simp add: device_x_doReq demo_decode_def)
  show "snd (snd (doReqString (device_x [] ''<response><a><b>1</b></a></response>'') demo_client []
     ''api/x'' None ''a'')) = Inl ErrInvalidValue"
    using doReqString_result [where E = "device_x [] ''<response><a><b>1</b></a></response>''"
        and c = demo_client and w = "[]" and path = "''api/x''" and v = None
        and d = "[''a'' \<mapsto> VMap [''b'' \<mapsto> VString ''1'']]" and elName = "''a''"
        and x = "VMap [''b'' \<mapsto> VString ''1'']"]
    by (simp add: device_x_doReq demo_decode_def)
  show "snd (snd (doReqString (device_x [] ''<response>OK</response>'') demo_client [] ''api/x'' None
      ''a'')) = Inl ErrInvalidXML"
    using doReqString_result [where E = "device_x [] ''<response>OK</response>''"
        and c = demo_client and w = "[]" and path = "''api/x''" and v = None
        and elName = "''a''" and res = "VString ''OK''"]
    by (simp add: device_x_doReq demo_decode_def)
  show "snd (snd (doReqString (device_x [] ''<<'') demo_client [] ''api/x'' None ''a''))
     = Inl (ErrExternal ''xml'')"
    using doReqString_result [where E = "device_x [] ''<<''"
        and c = demo_client and w = "[]" and path = "''api/x''" and v = None
        and elName = "''a''" and err = "ErrExternal ''xml''"]
    by (simp add: device_x_doReq demo_decode_def)
qed

text \<open>
  The claim C6 has a kind \<open>FieldMissing\<close>, apart from \<open>InvalidResponse\<close>, for an absent
  field: for a device whose document has the field \<open>a\<close> only, asking for the field \<open>b\<close>
  fails with \<open>ErrInvalidResponse\<close>, the error of the kind \<open>InvalidResponse\<close>.
\<close>

theorem doReqString_missing_counterexample:
  "snd (snd (doReqString (device_x [] ''<config><a>1</a></config>'') demo_client [] ''api/x'' None ''b''))
     = Inl ErrInvalidResponse \<and>
   spec_kind ErrInvalidResponse = Some InvalidResponse \<and>
   spec_kind ErrInvalidResponse \<noteq> Some FieldMissing"
  by (simp add: doReqString_def device_x_def doReq_def createRequest_def http_NewRequest_def
      demo_env_def demo_client_def ok_response_def StatusOK_def Let_def Header_Get_def
      demo_decode_def)

section \<open>Session bootstrap\<close>









section \<open>Construction with automatic start\<close>

text \<open>
  C10. When the options have been applied, the automatic start is not suppressed, and the
  session has been fetched and installed, \<open>NewClient\<close> returns the client that \<open>login\<close>
  leaves, whatever boolean \<open>login\<close> returns; it fails only with the error of \<open>login\<close>.
\<close>

theorem NewClient_ignores_ack:
  assumes "apply_opts opts new_Client = Inr c1"
    and "(if rawurl c1 = [] \<or> url c1 = None then URL_option E DefaultURL c1 else Inr c1) = Inr c2"
    and "\<not> nostart c2"
    and "NewSessionAndTokenID E c2 w = (c3, w3, Inr (sessID, tokID))"
    and "SetSessionAndTokenID c3 sessID tokID = Inr c4"
  shows "(login E c4 w3 = (c5, w5, Inr ok) \<longrightarrow> NewClient E opts w = (w5, Inr c5)) \<and>
         (login E c4 w3 = (c5, w5, Inl err) \<longrightarrow> NewClient E opts w = (w5, Inl err))"
  using assms by (simp add: NewClient_def)

theorem NewClient_ignores_ack_witness:
  "snd (snd (login (device_boot
        ''<response><SesInfo>SessionID=abc</SesInfo><TokInfo>t0</TokInfo></response>''
        ''<response>FAILED</response>'') session_client boot_wire)) = Inr False \<and>
   (\<exists>c. snd (NewClient (device_boot
        ''<response><SesInfo>SessionID=abc</SesInfo><TokInfo>t0</TokInfo></response>''
        ''<response>FAILED</response>'') [Auth_admin] []) = Inr c)"
proof -
  let ?E = "device_boot
        ''<response><SesInfo>SessionID=abc</SesInfo><TokInfo>t0</TokInfo></response>''
        ''<response>FAILED</response>''"
  let ?c1 = "new_Client\<lparr>authID := ''admin'', authPW := ''pw''\<rparr>"
  have a1: "apply_opts [Auth_admin] new_Client = Inr ?c1"
    by (simp add: Auth_admin_def)
  have a2: "(if rawurl ?c1 = [] \<or> url ?c1 = None then URL_option ?E DefaultURL ?c1 else Inr ?c1)
      = Inr boot_client"
    by (simp add: new_Client_def device_boot_def demo_env_def boot_client_def)
  have a3: "\<not> nostart boot_client"
    by (simp add: boot_client_def new_Client_def)
  have a4: "NewSessionAndTokenID ?E boot_client [] = (boot_client, boot_wire, Inr (''abc'', ''t0''))"
    by (simp add: NewSessionAndTokenID_def doReq_def createRequest_def http_NewRequest_def
        device_boot_def demo_env_def boot_client_def new_Client_def DefaultURL_def
        ok_response_def StatusOK_def Header_Get_def demo_decode_def TrimPrefix_def boot_wire_def)
  have a5: "SetSessionAndTokenID boot_client ''abc'' ''t0'' = Inr session_client"
    by (simp add: SetSessionAndTokenID_def cookiejar_New_def SetCookies_def boot_client_def
        session_client_def new_Client_def)
  have l: "snd (snd (login ?E session_client boot_wire)) = Inr False"
    by (simp add: login_def doReqCheckOK_def doReq_def createRequest_def http_NewRequest_def
        device_boot_def demo_env_def session_client_def boot_client_def new_Client_def
        DefaultURL_def ok_response_def StatusOK_def Header_Get_def TokenHeader_def
        demo_decode_def Let_def)
  obtain c5 w5 where l': "login ?E session_client boot_wire = (c5, w5, Inr False)"
    using l by (cases "login ?E session_client boot_wire") simp
  from NewClient_ignores_ack [OF a1 a2 a3 a4 a5, of c5 w5 False] l'
  have "NewClient ?E [Auth_admin] [] = (w5, Inr c5)"
    by simp
  with l show ?thesis by simp
qed

section \<open>Length check of an SMS\<close>

lemma doReq_wire_Inr:
  "createRequest E c (rawurl c @ path) v = Inr q \<Longrightarrow> fst (snd (doReq E c w path v f)) = w @ [q]"
  by (simp add: doReq_def Let_def split: sum.splits)

lemma doReq_wire_Inl:
  "createRequest E c (rawurl c @ path) v = Inl err \<Longrightarrow> doReq E c w path v f = (c, w, Inl err)"
  by (simp add: doReq_def)

text \<open>
  C8. A message of 160 bytes or more is refused with \<open>ErrMessageTooLong\<close>; the client and
  the list of requests handed to the transport are unchanged. A shorter message passes the
  check: the call is the boolean-acknowledgement call to the send-sms path with the ordered
  fields of the source, and when that request can be built it is handed to the transport as
  the one new request.
\<close>

theorem SmsSend_length_check:
  "(160 \<le> length msg \<longrightarrow> SmsSend E c w now msg to = (c, w, Inl ErrMessageTooLong)) \<and>
   (length msg < 160 \<longrightarrow>
      SmsSend E c w now msg to =
        doReqCheckOK E c w ''api/sms/send-sms''
          (Some (SimpleRequestXML E
             [''Index'', ''-1'',
              ''Phones'', CHR 0x0A # xmlPairs E ''    ''
                 (foldl (\<lambda>phones t. phones @ [''Phone'', t]) [] to),
              ''Sca'', [],
              ''Content'', msg,
              ''Length'', Sprintf_d (length msg),
              ''Reserved'', ''1'',
              ''Date'', now]))) \<and>
   (length msg < 160 \<and>
    createRequest E c (rawurl c @ ''api/sms/send-sms'')
      (Some (SimpleRequestXML E
             [''Index'', ''-1'',
              ''Phones'', CHR 0x0A # xmlPairs E ''    ''
                 (foldl (\<lambda>phones t. phones @ [''Phone'', t]) [] to),
              ''Sca'', [],
              ''Content'', msg,
              ''Length'', Sprintf_d (length msg),
              ''Reserved'', ''1'',
              ''Date'', now])) = Inr q \<longrightarrow>
      fst (snd (SmsSend E c w now msg to)) = w @ [q] \<and> Method q = ''POST'')"
proof (intro conjI impI)
  assume "160 \<le> length msg"
  then show "SmsSend E c w now msg to = (c, w, Inl ErrMessageTooLong)"
    by (simp add: SmsSend_def)
next
  assume "length msg < 160"
  then show "SmsSend E c w now msg to =
        doReqCheckOK E c w ''api/sms/send-sms''
          (Some (SimpleRequestXML E
             [''Index'', ''-1'',
              ''Phones'', CHR 0x0A # xmlPairs E ''    ''
                 (foldl (\<lambda>phones t. phones @ [''Phone'', t]) [] to),
              ''Sca'', [],
              ''Content'', msg,
              ''Length'', Sprintf_d (length msg),
              ''Reserved'', ''1'',
              ''Date'', now]))"
    by (simp add: SmsSend_def Let_def)
next
  let ?p = "SimpleRequestXML E
             [''Index'', ''-1'',
              ''Phones'', CHR 0x0A # xmlPairs E ''    ''
                 (foldl (\<lambda>phones t. phones @ [''Phone'', t]) [] to),
              ''Sca'', [],
              ''Content'', msg,
              ''Length'', Sprintf_d (length msg),
              ''Reserved'', ''1'',
              ''Date'', now]"
  assume a: "length msg < 160 \<and>
    createRequest E c (rawurl c @ ''api/sms/send-sms'') (Some ?p) = Inr q"
  then have "SmsSend E c w now msg to = doReqCheckOK E c w ''api/sms/send-sms'' (Some ?p)"
    by (simp add: SmsSend_def Let_def)
  with a show "fst (snd (SmsSend E c w now msg to)) = w @ [q]"
    by (simp add: doReqCheckOK_state doReq_wire_Inr)
  from a createRequest_POST [of E c "rawurl c @ ''api/sms/send-sms''" ?p q]
  show "Method q = ''POST''"
    by simp
qed

theorem SmsSend_length_check_witness:
  "SmsSend device_sms demo_client [] ''2026-01-01 00:00:00'' (replicate 160 (CHR ''a'')) [''+100'']
     = (demo_client, [], Inl ErrMessageTooLong) \<and>
   length (fst (snd (SmsSend device_sms demo_client [] ''2026-01-01 00:00:00''
     (replicate 159 (CHR ''a'')) [''+100'']))) = 1"
proof -
  obtain q where q: "createRequest device_sms demo_client (rawurl demo_client @ ''api/sms/send-sms'')
      (Some (SimpleRequestXML device_sms
             [''Index'', ''-1'',
              ''Phones'', CHR 0x0A # xmlPairs device_sms ''    ''
                 (foldl (\<lambda>phones t. phones @ [''Phone'', t]) [] [''+100'']),
              ''Sca'', [],
              ''Content'', replicate 159 (CHR ''a''),
              ''Length'', Sprintf_d (length (replicate 159 (CHR ''a''))),
              ''Reserved'', ''1'',
              ''Date'', ''2026-01-01 00:00:00''])) = Inr q"
    by (simp add: createRequest_def http_NewRequest_def device_sms_def demo_env_def)
  from SmsSend_length_check [of "replicate 160 (CHR ''a'')" device_sms demo_client "[]"
      "''2026-01-01 00:00:00''" "[''+100'']"]
  have 1: "SmsSend device_sms demo_client [] ''2026-01-01 00:00:00'' (replicate 160 (CHR ''a''))
      [''+100''] = (demo_client, [], Inl ErrMessageTooLong)"
    by simp
  have lt: "length (replicate 159 (CHR ''a'')) < 160"
    by simp
  from SmsSend_length_check [of "replicate 159 (CHR ''a'')" device_sms demo_client "[]"
      "''2026-01-01 00:00:00''" "[''+100'']" q] q lt
  have 2: "fst (snd (SmsSend device_sms demo_client [] ''2026-01-01 00:00:00''
     (replicate 159 (CHR ''a'')) [''+100''])) = [] @ [q]"
    by blast
  from 1 2 show ?thesis by simp
qed

section \<open>Token freshness\<close>

lemma doReq_success:
  assumes "doReq E c w path v f = (c', w', Inr m)"
  shows "\<exists>q r. createRequest E c (rawurl c @ path) v = Inr q \<and> client_Do E (Jar c) w q = Inr r \<and>
           StatusCode r = StatusOK \<and> w' = w @ [q] \<and>
           c' = (if Header_Get (RHeader r) TokenHeader \<noteq> []
                 then c\<lparr>token := Header_Get (RHeader r) TokenHeader\<rparr> else c)"
  using assms by (auto simp: doReq_def Let_def split: sum.splits if_splits)

text \<open>
  C1, as the code has it. Let A and B be two successful exchanges in a row on one client.
  The transport then has received one request for each, and when B carries a payload (a
  POST) the token attached to B's request is the token header of A's response if that is
  not empty, and otherwise the token stored before A; when B carries no payload (a GET) no
  token is attached to it. After \<open>SetSessionAndTokenID\<close> the next request with a payload
  carries the installed token.
\<close>

theorem token_freshness:
  "(doReq E c w pathA vA fA = (cA, wA, Inr mA) \<and> doReq E cA wA pathB vB fB = (cB, wB, Inr mB) \<longrightarrow>
      (\<exists>qA rA qB. wA = w @ [qA] \<and> wB = w @ [qA, qB] \<and>
          exchange_response E c w pathA vA = Some rA \<and>
          Header qB TokenHeader =
            (case vB of
               None \<Rightarrow> None
             | Some p \<Rightarrow>
                 Some [if Header_Get (RHeader rA) TokenHeader \<noteq> []
                       then Header_Get (RHeader rA) TokenHeader else token c]))) \<and>
   (SetSessionAndTokenID c sessionID tokenID = Inr c0 \<and>
    createRequest E c0 (rawurl c0 @ path) (Some p) = Inr q \<longrightarrow>
      Header q TokenHeader = Some [tokenID] \<and> fst (snd (doReq E c0 w path (Some p) f)) = w @ [q])"
proof (rule conjI; rule impI)
  assume a: "doReq E c w pathA vA fA = (cA, wA, Inr mA) \<and>
    doReq E cA wA pathB vB fB = (cB, wB, Inr mB)"
  from a doReq_success [of E c w pathA vA fA cA wA mA]
  obtain qA rA where
    qA: "createRequest E c (rawurl c @ pathA) vA = Inr qA" and
    rA: "client_Do E (Jar c) w qA = Inr rA" and
    wA: "wA = w @ [qA]" and
    cA: "cA = (if Header_Get (RHeader rA) TokenHeader \<noteq> []
               then c\<lparr>token := Header_Get (RHeader rA) TokenHeader\<rparr> else c)"
    by blast
  from a doReq_success [of E cA wA pathB vB fB cB wB mB]
  obtain qB where
    qB: "createRequest E cA (rawurl cA @ pathB) vB = Inr qB" and
    wB: "wB = wA @ [qB]"
    by blast
  have tokA: "token cA = (if Header_Get (RHeader rA) TokenHeader \<noteq> []
                          then Header_Get (RHeader rA) TokenHeader else token c)"
    by (simp add: cA)
  have resp: "exchange_response E c w pathA vA = Some rA"
    by (simp add: exchange_response_def qA rA)
  have hdr: "Header qB TokenHeader =
            (case vB of
               None \<Rightarrow> None
             | Some p \<Rightarrow>
                 Some [if Header_Get (RHeader rA) TokenHeader \<noteq> []
                       then Header_Get (RHeader rA) TokenHeader else token c])"
  proof (cases vB)
    case None
    with qB createRequest_GET [of E cA "rawurl cA @ pathB" qB] show ?thesis
      by simp
  next
    case (Some p)
    with qB createRequest_POST [of E cA "rawurl cA @ pathB" p qB] tokA show ?thesis
      by simp
  qed
  from wA wB resp hdr
  show "\<exists>qA rA qB. wA = w @ [qA] \<and> wB = w @ [qA, qB] \<and>
          exchange_response E c w pathA vA = Some rA \<and>
          Header qB TokenHeader =
            (case vB of
               None \<Rightarrow> None
             | Some p \<Rightarrow>
                 Some [if Header_Get (RHeader rA) TokenHeader \<noteq> []
                       then Header_Get (RHeader rA) TokenHeader else token c])"
    by auto
next
  assume a: "SetSessionAndTokenID c sessionID tokenID = Inr c0 \<and>
    createRequest E c0 (rawurl c0 @ path) (Some p) = Inr q"
  then have "token c0 = tokenID"
    by (auto simp: SetSessionAndTokenID_def cookiejar_New_def split: sum.splits)
  with a createRequest_POST [of E c0 "rawurl c0 @ path" p q] doReq_wire_Inr [of E c0 path "Some p" q w f]
  show "Header q TokenHeader = Some [tokenID] \<and> fst (snd (doReq E c0 w path (Some p) f)) = w @ [q]"
    by simp
qed

lemmas demo_exchange_defs =
  exchange_1_def exchange_2_def exchange_3_def device_abc_def doReq_def createRequest_def
  http_NewRequest_def demo_env_def session_client_def boot_client_def new_Client_def
  DefaultURL_def ok_response_def StatusOK_def Header_Get_def Header_Set_def TokenHeader_def
  demo_decode_def exchange_response_def Let_def

theorem token_freshness_witness:
  "succeeded (snd (snd exchange_1)) \<and>
   succeeded (snd (snd (doReq device_abc (fst exchange_1) (fst (snd exchange_1)) ''api/c''
      (Some (RawXML ''<request/>'')) False))) \<and>
   Header (last (fst (snd (doReq device_abc (fst exchange_1) (fst (snd exchange_1)) ''api/c''
      (Some (RawXML ''<request/>'')) False)))) TokenHeader = Some [''t1'']"
proof -
  let ?B = "doReq device_abc (fst exchange_1) (fst (snd exchange_1)) ''api/c''
      (Some (RawXML ''<request/>'')) False"
  have sA: "succeeded (snd (snd exchange_1))"
    by (simp add: demo_exchange_defs)
  have sB: "succeeded (snd (snd ?B))"
    by (simp add: demo_exchange_defs)
  obtain cA wA mA where A: "doReq device_abc session_client [] ''api/a'' None False = (cA, wA, Inr mA)"
    using sA by (cases exchange_1; cases "snd (snd exchange_1)") (auto simp: exchange_1_def)
  then have e1: "exchange_1 = (cA, wA, Inr mA)"
    by (simp add: exchange_1_def)
  have sB': "succeeded (snd (snd (doReq device_abc cA wA ''api/c'' (Some (RawXML ''<request/>''))
      False)))"
    using sB by (simp add: e1)
  obtain cB wB mB where B: "doReq device_abc cA wA ''api/c'' (Some (RawXML ''<request/>'')) False
      = (cB, wB, Inr mB)"
    using sB' by (cases "doReq device_abc cA wA ''api/c'' (Some (RawXML ''<request/>'')) False";
        cases "snd (snd (doReq device_abc cA wA ''api/c'' (Some (RawXML ''<request/>'')) False))")
      auto
  have r: "exchange_response device_abc session_client [] ''api/a'' None
      = Some (ok_response ''t1'' ''<response>OK</response>'')"
    by (simp add: demo_exchange_defs)
  have h: "Header_Get (RHeader (ok_response ''t1'' ''<response>OK</response>'')) TokenHeader = ''t1''"
    by (simp add: ok_response_def Header_Get_def)
  from token_freshness [of device_abc session_client "[]" "''api/a''" None False cA wA mA
      "''api/c''" "Some (RawXML ''<request/>'')" False cB wB mB, THEN conjunct1] A B r h
  obtain qA qB where "wB = [qA, qB]" and "Header qB TokenHeader = Some [''t1'']"
    by auto
  then have "Header (last wB) TokenHeader = Some [''t1'']"
    by simp
  with sA sB' B show ?thesis
    by (simp add: e1)
qed

text \<open>
  The claim C1 has the token of B's request equal to the token harvested from A's response
  headers (or the bootstrap token). Here the second exchange (A) and the third (B) both
  succeed, A's response carries no token header, A is not the first exchange, and B's
  request carries the token \<open>t1\<close> of the first exchange: neither a token of A's response
  nor the installed token \<open>t0\<close>.
\<close>

theorem token_freshness_counterexample:
  "succeeded (snd (snd exchange_2)) \<and> succeeded (snd (snd exchange_3)) \<and>
   exchange_response device_abc (fst exchange_1) (fst (snd exchange_1)) ''api/b'' None =
     Some (ok_response [] ''<response>OK</response>'') \<and>
   RHeader (ok_response [] ''<response>OK</response>'') TokenHeader = None \<and>
   Header (last (fst (snd exchange_3))) TokenHeader = Some [''t1''] \<and>
   Header (last (fst (snd exchange_3))) TokenHeader \<noteq>
     Some [Header_Get (RHeader (ok_response [] ''<response>OK</response>'')) TokenHeader] \<and>
   Header (last (fst (snd exchange_3))) TokenHeader \<noteq> Some [token session_client]"
  by (simp add: demo_exchange_defs)

section \<open>Authentication handshake: the credential\<close>






















end
